theory Spec2Isabelle
  imports Complex_Main
begin

section \<open>JavaScript values the program handles\<close>

text \<open>
  A JavaScript string is a sequence of UTF-16 code units; it is modelled as a list of
  natural numbers, one per code unit. \<open>js\<close> turns an ASCII literal of the source into
  that representation.
\<close>

type_synonym jsstring = "nat list"

definition js :: "string \<Rightarrow> jsstring" where
  "js s = map of_char s"

abbreviation ch :: "char \<Rightarrow> nat" where
  "ch c \<equiv> of_char c"

text \<open>
  A value of type \<open>number\<close>. A finite double is a rational number, so \<open>Fin\<close> over-approximates
  the finite doubles; comparisons between finite doubles are comparisons of their values.
\<close>

datatype number = Fin rat | PosInf | NegInf | NaN

text \<open>\<open>x <= k\<close> for a number \<open>x\<close> and a finite constant \<open>k\<close>; any comparison with NaN is false.\<close>

fun num_le :: "number \<Rightarrow> rat \<Rightarrow> bool" where
  "num_le (Fin x) k = (x \<le> k)"
| "num_le NegInf k = True"
| "num_le PosInf k = False"
| "num_le NaN k = False"


text \<open>
  The values \<open>JSON.parse\<close> produces. The value \<open>undefined\<close> is not among them: a value that
  may be \<open>undefined\<close> has type \<open>json option\<close>, with \<open>None\<close> for \<open>undefined\<close>. An object keeps
  its members in the order they were written; a lookup takes the last member of that
  name, as a later duplicate overwrites an earlier one.
\<close>

datatype json =
    JNull
  | JBool bool
  | JNum number
  | JStr jsstring
  | JArr "json list"
  | JObj "(jsstring \<times> json) list"

datatype error =
    ClientNotInitialized
    \<comment> \<open>\<open>new Error("Google AI client not initialized.")\<close>\<close>
  | ProviderHTTPError jsstring
    \<comment> \<open>\<open>new Error(...)\<close> of a response that is not ok; the argument is the message\<close>
  | NetworkError
    \<comment> \<open>the promise of \<open>fetch\<close>, of a body read or of the SDK call rejected\<close>
  | TypeError
  | SyntaxError

subsection \<open>Truthiness and property access\<close>

fun truthy :: "json option \<Rightarrow> bool" where
  "truthy None = False"
| "truthy (Some JNull) = False"
| "truthy (Some (JBool b)) = b"
| "truthy (Some (JNum (Fin x))) = (x \<noteq> 0)"
| "truthy (Some (JNum NaN)) = False"
| "truthy (Some (JNum PosInf)) = True"
| "truthy (Some (JNum NegInf)) = True"
| "truthy (Some (JStr s)) = (s \<noteq> [])"
| "truthy (Some (JArr xs)) = True"
| "truthy (Some (JObj kvs)) = True"

definition lookup :: "(jsstring \<times> json) list \<Rightarrow> jsstring \<Rightarrow> json option" where
  "lookup kvs k = map_of (rev kvs) k"

text \<open>
  Whether the conversion of a value to a string returns. An object is converted by its
  \<open>toString\<close>: a member of that name, which \<open>JSON.parse\<close> never makes a function, hides the
  inherited one, and the conversion throws a TypeError. An array joins the conversions of
  its elements. The comparison of a value with a number converts it the same way.
\<close>

fun stringifies :: "json \<Rightarrow> bool" where
  "stringifies (JObj kvs) = (lookup kvs (js ''toString'') = None)"
| "stringifies (JArr xs) = list_all stringifies xs"
| "stringifies v = True"

text \<open>
  Whether \<open>v.toLocaleString(...)\<close> returns. It throws for \<open>null\<close>; for an object it throws
  when a member hides \<open>toLocaleString\<close> or \<open>toString\<close>; for an array it calls the method of
  every element other than \<open>null\<close>.
\<close>

fun locale_stringifies :: "json \<Rightarrow> bool" where
  "locale_stringifies JNull = False"
| "locale_stringifies (JObj kvs) =
     (lookup kvs (js ''toLocaleString'') = None \<and> lookup kvs (js ''toString'') = None)"
| "locale_stringifies (JArr xs) = list_all (\<lambda>x. x = JNull \<or> locale_stringifies x) xs"
| "locale_stringifies v = True"

text \<open>
  \<open>v.name\<close> for a property name that is neither an array index, nor \<open>length\<close>, nor a
  member of a built-in prototype (every name the program reads is of that kind:
  \<open>choices\<close>, \<open>message\<close>, \<open>content\<close> and the seven result keys). Reading a property of
  \<open>undefined\<close> or \<open>null\<close> throws a TypeError; a primitive or an array has no such property.
\<close>

fun get_prop :: "json option \<Rightarrow> jsstring \<Rightarrow> error + json option" where
  "get_prop None k = Inl TypeError"
| "get_prop (Some JNull) k = Inl TypeError"
| "get_prop (Some (JObj kvs)) k = Inr (lookup kvs k)"
| "get_prop (Some v) k = Inr None"

text \<open>\<open>v[0]\<close>: the first element of an array, the first code unit of a string, the member \<open>"0"\<close> of an object.\<close>

fun get_index0 :: "json option \<Rightarrow> error + json option" where
  "get_index0 None = Inl TypeError"
| "get_index0 (Some JNull) = Inl TypeError"
| "get_index0 (Some (JArr xs)) = Inr (case xs of [] \<Rightarrow> None | x # _ \<Rightarrow> Some x)"
| "get_index0 (Some (JStr s)) = Inr (case s of [] \<Rightarrow> None | c # _ \<Rightarrow> Some (JStr [c]))"
| "get_index0 (Some (JObj kvs)) = Inr (lookup kvs (js ''0''))"
| "get_index0 (Some v) = Inr None"

subsection \<open>String operations\<close>

text \<open>\<open>s.indexOf(c)\<close> and \<open>s.lastIndexOf(c)\<close> for a pattern of one code unit: the index, or -1.\<close>

definition indexOf :: "jsstring \<Rightarrow> nat \<Rightarrow> int" where
  "indexOf s c = (if c \<in> set s then int (length (takeWhile (\<lambda>x. x \<noteq> c) s)) else - 1)"

definition lastIndexOf :: "jsstring \<Rightarrow> nat \<Rightarrow> int" where
  "lastIndexOf s c =
     (if c \<in> set s then int (length s) - 1 - int (length (takeWhile (\<lambda>x. x \<noteq> c) (rev s))) else - 1)"

text \<open>
  \<open>s.substring(a, b)\<close>: both arguments are clamped to \<open>0 .. s.length\<close>, and they are
  swapped when the first is the larger.
\<close>

definition substring :: "jsstring \<Rightarrow> int \<Rightarrow> int \<Rightarrow> jsstring" where
  "substring s a b =
     (let len = int (length s);
          a' = min (max a 0) len;
          b' = min (max b 0) len;
          from = min a' b';
          to = max a' b'
      in take (nat (to - from)) (drop (nat from) s))"

text \<open>The code units \<open>trim\<close> removes: the white space and line terminators of ECMAScript.\<close>

definition is_js_space :: "nat \<Rightarrow> bool" where
  "is_js_space c =
     ((9 \<le> c \<and> c \<le> 13) \<or> c = 32 \<or> c = 160 \<or> c = 5760 \<or> (8192 \<le> c \<and> c \<le> 8202)
      \<or> c = 8232 \<or> c = 8233 \<or> c = 8239 \<or> c = 8287 \<or> c = 12288 \<or> c = 65279)"

definition trim :: "jsstring \<Rightarrow> jsstring" where
  "trim s = rev (dropWhile is_js_space (rev (dropWhile is_js_space s)))"

section \<open>JSON.parse\<close>

text \<open>
  \<open>JSON.parse\<close> belongs to the platform, not to the repository. It is modelled after the
  JSON grammar: a lexer produces tokens, a stack machine reads them. A numeric literal
  is kept as its exact value; JavaScript rounds it to the nearest double, which this model
  leaves out.
\<close>

datatype token = TLBrace | TRBrace | TLBrack | TRBrack | TColon | TComma | TVal json

definition is_json_ws :: "nat \<Rightarrow> bool" where
  "is_json_ws c = (c = 32 \<or> c = 9 \<or> c = 10 \<or> c = 13)"

definition is_digit :: "nat \<Rightarrow> bool" where
  "is_digit c = (48 \<le> c \<and> c \<le> 57)"

definition hex_digit :: "nat \<Rightarrow> nat option" where
  "hex_digit c =
     (if 48 \<le> c \<and> c \<le> 57 then Some (c - 48)
      else if 65 \<le> c \<and> c \<le> 70 then Some (c - 55)
      else if 97 \<le> c \<and> c \<le> 102 then Some (c - 87)
      else None)"

definition hex4 :: "nat \<Rightarrow> nat \<Rightarrow> nat \<Rightarrow> nat \<Rightarrow> nat option" where
  "hex4 a b c d =
     (case (hex_digit a, hex_digit b, hex_digit c, hex_digit d) of
        (Some w, Some x, Some y, Some z) \<Rightarrow> Some (((w * 16 + x) * 16 + y) * 16 + z)
      | _ \<Rightarrow> None)"

text \<open>The character a one-letter escape stands for.\<close>

definition unescape :: "nat \<Rightarrow> nat option" where
  "unescape e =
     (if e = 34 \<or> e = 92 \<or> e = 47 then Some e
      else if e = ch CHR ''b'' then Some 8
      else if e = ch CHR ''f'' then Some 12
      else if e = ch CHR ''n'' then Some 10
      else if e = ch CHR ''r'' then Some 13
      else if e = ch CHR ''t'' then Some 9
      else None)"

definition push :: "nat \<Rightarrow> (jsstring \<times> jsstring) option \<Rightarrow> (jsstring \<times> jsstring) option" where
  "push c r = (case r of None \<Rightarrow> None | Some (s, rest) \<Rightarrow> Some (c # s, rest))"

text \<open>
  The characters of a string literal after its opening quote: the string, and what
  follows the closing quote. A raw control character is not allowed.
\<close>

fun lex_string :: "jsstring \<Rightarrow> (jsstring \<times> jsstring) option" where
  "lex_string [] = None"
| "lex_string (c # cs) =
     (if c = 34 then Some ([], cs)
      else if c = 92 then
        (case cs of
           [] \<Rightarrow> None
         | e # es \<Rightarrow>
             if e = ch CHR ''u'' then
               (case es of
                  a # b # c' # d # r \<Rightarrow>
                    (case hex4 a b c' d of None \<Rightarrow> None | Some u \<Rightarrow> push u (lex_string r))
                | _ \<Rightarrow> None)
             else
               (case unescape e of None \<Rightarrow> None | Some x \<Rightarrow> push x (lex_string es)))
      else if c < 32 then None
      else push c (lex_string cs))"

definition starts_with :: "jsstring \<Rightarrow> nat \<Rightarrow> bool" where
  "starts_with cs c = (case cs of [] \<Rightarrow> False | x # _ \<Rightarrow> x = c)"

definition digits_value :: "jsstring \<Rightarrow> nat" where
  "digits_value ds = foldl (\<lambda>a d. 10 * a + (d - 48)) 0 ds"

text \<open>
  A numeric literal: an optional minus, an integer part without a leading zero, an
  optional fraction, an optional exponent. Each stage returns what it read and what
  follows.
\<close>

definition lex_digits :: "jsstring \<Rightarrow> (jsstring \<times> jsstring) option" where
  "lex_digits cs =
     (if takeWhile is_digit cs = [] then None
      else Some (takeWhile is_digit cs, dropWhile is_digit cs))"

definition lex_int :: "jsstring \<Rightarrow> ((bool \<times> jsstring) \<times> jsstring) option" where
  "lex_int cs =
     (let neg = starts_with cs (ch CHR ''-'')
      in case lex_digits (if neg then tl cs else cs) of
           None \<Rightarrow> None
         | Some (ip, rest) \<Rightarrow>
             if starts_with ip 48 \<and> 1 < length ip then None else Some ((neg, ip), rest))"

definition lex_frac :: "jsstring \<Rightarrow> (jsstring \<times> jsstring) option" where
  "lex_frac cs = (if starts_with cs (ch CHR ''.'') then lex_digits (tl cs) else Some ([], cs))"

definition lex_exp :: "jsstring \<Rightarrow> (int \<times> jsstring) option" where
  "lex_exp cs =
     (if starts_with cs (ch CHR ''e'') \<or> starts_with cs (ch CHR ''E'') then
        (let eneg = starts_with (tl cs) (ch CHR ''-'');
             esign = (eneg \<or> starts_with (tl cs) (ch CHR ''+''))
         in case lex_digits (if esign then tl (tl cs) else tl cs) of
              None \<Rightarrow> None
            | Some (ep, rest) \<Rightarrow>
                Some (if eneg then - int (digits_value ep) else int (digits_value ep), rest))
      else Some (0, cs))"

definition scale10 :: "rat \<Rightarrow> int \<Rightarrow> rat" where
  "scale10 m e = (if e < 0 then m / 10 ^ nat (- e) else m * 10 ^ nat e)"

definition literal_value :: "bool \<Rightarrow> jsstring \<Rightarrow> jsstring \<Rightarrow> int \<Rightarrow> number" where
  "literal_value neg ip fp e =
     (let mant = of_nat (digits_value ip) + of_nat (digits_value fp) / 10 ^ length fp;
          v = scale10 mant e
      in Fin (if neg then - v else v))"

definition lex_number :: "jsstring \<Rightarrow> (number \<times> jsstring) option" where
  "lex_number cs =
     (case lex_int cs of
        None \<Rightarrow> None
      | Some ((neg, ip), r1) \<Rightarrow>
          (case lex_frac r1 of
             None \<Rightarrow> None
           | Some (fp, r2) \<Rightarrow>
               (case lex_exp r2 of
                  None \<Rightarrow> None
                | Some (e, r3) \<Rightarrow> Some (literal_value neg ip fp e, r3))))"

fun strip_prefix :: "jsstring \<Rightarrow> jsstring \<Rightarrow> jsstring option" where
  "strip_prefix [] ys = Some ys"
| "strip_prefix (x # xs) [] = None"
| "strip_prefix (x # xs) (y # ys) = (if x = y then strip_prefix xs ys else None)"

lemma push_Some: "push c r = Some (s, rest) \<Longrightarrow> \<exists>s'. r = Some (s', rest)"
  by (auto simp: push_def split: option.splits)

lemma lex_string_shorter: "lex_string cs = Some (s, rest) \<Longrightarrow> length rest < length cs"
proof (induction "length cs" arbitrary: cs s rest rule: less_induct)
  case less
  from less.prems obtain c cs' where cs: "cs = c # cs'"
    by (cases cs) auto
  have IH: "\<And>ys s'. length ys < length cs \<Longrightarrow> lex_string ys = Some (s', rest)
      \<Longrightarrow> length rest < length ys"
    using less.hyps by blast
  show ?case
  proof (cases "c = 34")
    case True
    with less.prems cs show ?thesis by simp
  next
    case q: False
    show ?thesis
    proof (cases "c = 92")
      case False
      with q less.prems cs have p: "push c (lex_string cs') = Some (s, rest)"
        by (auto split: if_splits)
      from push_Some [OF p] obtain s' where "lex_string cs' = Some (s', rest)" ..
      from IH [OF _ this] cs show ?thesis by simp
    next
      case True
      with q less.prems cs obtain e es where cs': "cs' = e # es"
        by (cases cs') auto
      show ?thesis
      proof (cases "e = ch CHR ''u''")
        case u: True
        with q True cs cs' less.prems obtain a b c' d r u' where
          es: "es = a # b # c' # d # r" and p: "push u' (lex_string r) = Some (s, rest)"
          by (auto split: list.splits option.splits)
        from push_Some [OF p] obtain s' where "lex_string r = Some (s', rest)" ..
        from IH [OF _ this] cs cs' es show ?thesis by simp
      next
        case nu: False
        with q True cs cs' less.prems obtain x where
          p: "push x (lex_string es) = Some (s, rest)"
          by (auto split: option.splits)
        from push_Some [OF p] obtain s' where "lex_string es = Some (s', rest)" ..
        from IH [OF _ this] cs cs' show ?thesis by simp
      qed
    qed
  qed
qed

lemma dropWhile_shorter: "length (dropWhile P xs) \<le> length xs"
  by (induction xs) auto

lemma lex_digits_shorter: "lex_digits cs = Some (ds, rest) \<Longrightarrow> length rest < length cs"
proof -
  assume a: "lex_digits cs = Some (ds, rest)"
  then obtain c cs' where cs: "cs = c # cs'" and c: "is_digit c"
    by (cases cs) (auto simp: lex_digits_def split: if_splits)
  with a have "rest = dropWhile is_digit cs'"
    by (simp add: lex_digits_def)
  then show ?thesis
    using dropWhile_shorter [of is_digit cs'] cs by simp
qed

lemma lex_int_shorter: "lex_int cs = Some (r, rest) \<Longrightarrow> length rest < length cs"
proof -
  assume "lex_int cs = Some (r, rest)"
  then obtain ip where
    "lex_digits (if starts_with cs (ch CHR ''-'') then tl cs else cs) = Some (ip, rest)"
    by (auto simp: lex_int_def Let_def split: option.splits if_splits)
  from lex_digits_shorter [OF this] show ?thesis
    by (cases cs) (auto split: if_splits)
qed

lemma lex_frac_shorter: "lex_frac cs = Some (fp, rest) \<Longrightarrow> length rest \<le> length cs"
proof (cases "starts_with cs (ch CHR ''.'')")
  case True
  assume "lex_frac cs = Some (fp, rest)"
  with True have "lex_digits (tl cs) = Some (fp, rest)"
    by (simp add: lex_frac_def)
  from lex_digits_shorter [OF this] show ?thesis
    by (cases cs) auto
next
  case False
  assume "lex_frac cs = Some (fp, rest)"
  with False show ?thesis by (simp add: lex_frac_def)
qed

lemma lex_exp_shorter: "lex_exp cs = Some (e, rest) \<Longrightarrow> length rest \<le> length cs"
proof (cases "starts_with cs (ch CHR ''e'') \<or> starts_with cs (ch CHR ''E'')")
  case True
  assume "lex_exp cs = Some (e, rest)"
  with True obtain ep b where
    "lex_digits (if b then tl (tl cs) else tl cs) = Some (ep, rest)"
    unfolding lex_exp_def Let_def by (simp split: option.splits prod.splits)
  from lex_digits_shorter [OF this] have "length rest < length (tl cs)"
    by (cases b; cases "tl cs") auto
  then show ?thesis by simp
next
  case False
  assume "lex_exp cs = Some (e, rest)"
  with False show ?thesis by (auto simp: lex_exp_def)
qed

lemma lex_number_shorter:
  assumes "lex_number cs = Some (n, rest)"
  shows "length rest < length cs"
proof -
  from assms obtain r r1 fp r2 e where
    i: "lex_int cs = Some (r, r1)" and f: "lex_frac r1 = Some (fp, r2)"
    and x: "lex_exp r2 = Some (e, rest)"
    by (auto simp: lex_number_def split: option.splits prod.splits)
  from lex_int_shorter [OF i] lex_frac_shorter [OF f] lex_exp_shorter [OF x]
  show ?thesis by linarith
qed

lemma strip_prefix_shorter: "strip_prefix xs ys = Some rest \<Longrightarrow> length rest \<le> length ys"
  by (induction xs ys rule: strip_prefix.induct) (auto split: if_splits)


text \<open>One token at the head of the text, and what follows it.\<close>

definition punct :: "nat \<Rightarrow> token option" where
  "punct c =
     (if c = ch CHR ''{'' then Some TLBrace
      else if c = ch CHR ''}'' then Some TRBrace
      else if c = ch CHR ''['' then Some TLBrack
      else if c = ch CHR '']'' then Some TRBrack
      else if c = ch CHR '':'' then Some TColon
      else if c = ch CHR '','' then Some TComma
      else None)"

definition lex_keyword :: "jsstring \<Rightarrow> json \<Rightarrow> jsstring \<Rightarrow> (token \<times> jsstring) option" where
  "lex_keyword w v cs = map_option (Pair (TVal v)) (strip_prefix w cs)"

definition lex_token :: "nat \<Rightarrow> jsstring \<Rightarrow> (token \<times> jsstring) option" where
  "lex_token c cs =
     (case punct c of
        Some t \<Rightarrow> Some (t, cs)
      | None \<Rightarrow>
          if c = 34 then map_option (\<lambda>(s, rest). (TVal (JStr s), rest)) (lex_string cs)
          else if c = ch CHR ''-'' \<or> is_digit c then
            map_option (\<lambda>(n, rest). (TVal (JNum n), rest)) (lex_number (c # cs))
          else if c = ch CHR ''t'' then lex_keyword (js ''rue'') (JBool True) cs
          else if c = ch CHR ''f'' then lex_keyword (js ''alse'') (JBool False) cs
          else if c = ch CHR ''n'' then lex_keyword (js ''ull'') JNull cs
          else None)"

lemma lex_token_shorter: "lex_token c cs = Some (t, rest) \<Longrightarrow> length rest \<le> length cs"
  unfolding lex_token_def lex_keyword_def
  by (auto split: option.splits if_splits
      dest!: lex_string_shorter lex_number_shorter strip_prefix_shorter)

function lex :: "jsstring \<Rightarrow> token list option" where
  "lex [] = Some []"
| "lex (c # cs) =
     (if is_json_ws c then lex cs
      else case lex_token c cs of
             None \<Rightarrow> None
           | Some (t, rest) \<Rightarrow> map_option (Cons t) (lex rest))"
  by pat_completeness auto
termination
proof (relation "measure length", goal_cases)
  case 1
  show ?case by simp
next
  case (2 c cs)
  show ?case by simp
next
  case (3 c cs x t rest)
  then have "lex_token c cs = Some (t, rest)" by simp
  from lex_token_shorter [OF this] show ?case by simp
qed

datatype frame = InArr "json list" | InObj "(jsstring \<times> json) list" jsstring

datatype pstate =
    WantValue "frame list"
    \<comment> \<open>a value must follow\<close>
  | FirstElem "frame list"
    \<comment> \<open>after \<open>[\<close>: a value or \<open>]\<close>\<close>
  | FirstKey "frame list"
    \<comment> \<open>after \<open>{\<close>: a key or \<open>}\<close>\<close>
  | WantKey "(jsstring \<times> json) list" "frame list"
    \<comment> \<open>after a comma in an object\<close>
  | WantColon "(jsstring \<times> json) list" jsstring "frame list"
  | Done json "frame list"
    \<comment> \<open>a value is complete; with an empty stack it is the result\<close>

fun begin_value :: "frame list \<Rightarrow> token \<Rightarrow> pstate option" where
  "begin_value stk (TVal v) = Some (Done v stk)"
| "begin_value stk TLBrack = Some (FirstElem stk)"
| "begin_value stk TLBrace = Some (FirstKey stk)"
| "begin_value stk t = None"

fun step :: "pstate \<Rightarrow> token \<Rightarrow> pstate option" where
  "step (WantValue stk) t = begin_value stk t"
| "step (FirstElem stk) t = (if t = TRBrack then Some (Done (JArr []) stk) else begin_value (InArr [] # stk) t)"
| "step (FirstKey stk) t =
     (case t of
        TRBrace \<Rightarrow> Some (Done (JObj []) stk)
      | TVal (JStr k) \<Rightarrow> Some (WantColon [] k stk)
      | _ \<Rightarrow> None)"
| "step (WantKey kvs stk) t = (case t of TVal (JStr k) \<Rightarrow> Some (WantColon kvs k stk) | _ \<Rightarrow> None)"
| "step (WantColon kvs k stk) t = (if t = TColon then Some (WantValue (InObj kvs k # stk)) else None)"
| "step (Done v []) t = None"
| "step (Done v (InArr xs # stk)) t =
     (case t of
        TComma \<Rightarrow> Some (WantValue (InArr (xs @ [v]) # stk))
      | TRBrack \<Rightarrow> Some (Done (JArr (xs @ [v])) stk)
      | _ \<Rightarrow> None)"
| "step (Done v (InObj kvs k # stk)) t =
     (case t of
        TComma \<Rightarrow> Some (WantKey (kvs @ [(k, v)]) stk)
      | TRBrace \<Rightarrow> Some (Done (JObj (kvs @ [(k, v)])) stk)
      | _ \<Rightarrow> None)"

fun run :: "pstate \<Rightarrow> token list \<Rightarrow> json option" where
  "run (Done v []) [] = Some v"
| "run st [] = None"
| "run st (t # ts) = (case step st t of None \<Rightarrow> None | Some st' \<Rightarrow> run st' ts)"

definition JSON_parse :: "jsstring \<Rightarrow> error + json" where
  "JSON_parse text =
     (case lex text of
        None \<Rightarrow> Inl SyntaxError
      | Some ts \<Rightarrow> (case run (WantValue []) ts of None \<Rightarrow> Inl SyntaxError | Some v \<Rightarrow> Inr v))"

section \<open>The program\<close>

text \<open>The type \<open>AIProvider\<close> and the string each of its values is.\<close>

datatype provider = GoogleAI | OpenAI | Mistral | OpenRouter

fun provider_name :: "provider \<Rightarrow> jsstring" where
  "provider_name GoogleAI = js ''Google AI''"
| "provider_name OpenAI = js ''OpenAI''"
| "provider_name Mistral = js ''Mistral''"
| "provider_name OpenRouter = js ''OpenRouter''"

subsection \<open>createPrompt\<close>

text \<open>A string is truthy when it is not empty.\<close>

definition searchInstruction :: "bool \<Rightarrow> jsstring" where
  "searchInstruction useGoogleSearch =
     (if useGoogleSearch then js ''using Google Search'' else js ''based on your extensive knowledge'')"

definition locationInstruction :: "jsstring \<Rightarrow> jsstring \<Rightarrow> jsstring" where
  \<open>locationInstruction country language =
     (if country \<noteq> [] \<and> language \<noteq> [] then
        js '' for the target country "'' @ country @ js ''" and language "'' @ language @ js ''"''
      else if country \<noteq> [] then js '' for the target country "'' @ country @ js ''"''
      else if language \<noteq> [] then js '' for the target language "'' @ language @ js ''"''
      else [])\<close>

definition prompt_head :: jsstring where
  \<open>prompt_head = js ''\<newline>      You are an expert SEO analyst. Analyze the keyword "''\<close>

definition prompt_tail :: jsstring where
  \<open>prompt_tail =
     js ''.\<newline>''
     @ js ''      Provide a complete and detailed study.\<newline>''
     @ js ''      You MUST ONLY return a valid JSON object. Do not include markdown formatting like ```json.\<newline>''
     @ js ''      The JSON object must have these exact keys:\<newline>''
     @ js ''      - "searchVolume": A string describing the estimated monthly search volume (e.g., "High (10k-100k)", "Medium (1k-10k)", "Low (100-1k)").\<newline>''
     @ js ''      - "searchVolumeValue": An integer representing the estimated average monthly search volume (e.g., for "10k-100k" you could return 55000).\<newline>''
     @ js ''      - "competition": A string describing the SEO competition difficulty (e.g., "High", "Medium", "Low").\<newline>''
     @ js ''      - "competitionScore": An integer from 0 (very easy) to 100 (very hard) representing SEO competition difficulty.\<newline>''
     @ js ''      - "alternatives": An array of 3-5 strong alternative keywords.\<newline>''
     @ js ''      - "suggestedTitles": An array of 3-5 compelling, SEO-friendly article titles.\<newline>''
     @ js ''      - "longTailKeywords": An array of 3-5 related long-tail keywords that are easier to rank for.\<newline>''
     @ js ''    ''\<close>

definition createPrompt :: "jsstring \<Rightarrow> jsstring \<Rightarrow> jsstring \<Rightarrow> bool \<Rightarrow> jsstring" where
  \<open>createPrompt keyword country language useGoogleSearch =
     prompt_head @ keyword @ js ''"'' @ locationInstruction country language @ js '' ''
     @ searchInstruction useGoogleSearch @ prompt_tail\<close>

subsection \<open>The outside world\<close>

text \<open>
  A request handed to \<open>fetch\<close>. The body is the value given to \<open>JSON.stringify\<close>; its
  serialisation is not modelled.
\<close>

record http_request =
  url :: jsstring
  http_method :: jsstring
  headers :: "(jsstring \<times> jsstring) list"
  body :: json

text \<open>A response, with the text its body holds; \<open>response.ok\<close> is a status from 200 to 299.\<close>

record response =
  status :: nat
  statusText :: jsstring
  bodyText :: jsstring

definition ok :: "response \<Rightarrow> bool" where
  "ok r = (200 \<le> status r \<and> status r \<le> 299)"

text \<open>
  \<open>FetchRejected\<close> is a transport failure: the promise of \<open>fetch\<close>, or of reading the body,
  rejects, and \<open>performAnalysis\<close> lets the rejection through.
\<close>

datatype fetch_outcome = FetchRejected | FetchResponse response

text \<open>The client of the SDK, the request of its \<open>generateContent\<close> and what it answers.\<close>

datatype client = GoogleGenAI (client_apiKey: "jsstring option")

datatype tool = GoogleSearch

record generate_request =
  model :: jsstring
  contents :: jsstring
  tools :: "tool list"

record web_source =
  uri :: "jsstring option"
  title :: "jsstring option"

datatype chunk = Chunk (web: "web_source option")

datatype grounding_metadata = GroundingMetadata (groundingChunks: "chunk list option")

datatype candidate = Candidate (groundingMetadata: "grounding_metadata option")

record generate_response =
  response_text :: "jsstring option"
  candidates :: "candidate list option"

datatype sdk_outcome = SdkRejected | SdkResponse generate_response

text \<open>
  What the program cannot decide: the environment variable \<open>process.env.API_KEY\<close>, whether
  the constructor of the client throws, and what the network and the SDK answer.
\<close>

record world =
  env_API_KEY :: "jsstring option"
  constructor_throws :: "jsstring option \<Rightarrow> bool"
  fetch :: "http_request \<Rightarrow> fetch_outcome"
  generateContent :: "client \<Rightarrow> generate_request \<Rightarrow> sdk_outcome"

text \<open>
  The outbound calls of the program are its invocations of \<open>fetch\<close> and of the methods of
  the SDK; the state keeps their trace. What the platform does with an invocation is the
  world's answer.
\<close>

datatype call =
    Fetch http_request
  | GenerateContent client generate_request
  | GenerateImages client

subsection \<open>The state: module variables and the page\<close>

text \<open>
  The three messages of the page are Arabic literals of the source; each is a constant
  here. \<open>MsgSetupFirst\<close> asks to set the provider and key up first, \<open>MsgAnalysisFailed\<close> is
  the message of the submit handler's \<open>catch\<close>, \<open>MsgInitFailed\<close> that of \<open>setupApplication\<close>.
\<close>

datatype message = MsgSetupFirst | MsgAnalysisFailed | MsgInitFailed

text \<open>
  The markup of the results is kept as a structure, one field per part of the template.
  A value put into the template is kept as it is (\<open>Shown\<close>), not converted to text, and
  markup that the value may itself contain is not interpreted;
  \<open>Unavailable\<close> is the Arabic literal shown in place of a falsy label.
\<close>

datatype label = Shown json | Unavailable

record card =
  card_label :: label
  card_canvas :: bool

record link =
  href :: "jsstring option"
  link_text :: "jsstring option"

record results =
  volume_card :: "card option"
  competition_card :: "card option"
  alternatives_list :: "json list"
  titles_list :: "json list"
  long_tail_list :: "json list"
  sources_list :: "link list option"

datatype dom = Empty | Loader | ErrorMessage message | Results results

datatype logo = LogoEmpty | LogoLoader

datatype color = Green | Yellow | Red

text \<open>
  A chart handed to the charting library: the bar chart of a value, the gauge of a score
  with its colour. The colour is left open for a score that is not a number, whose
  coercion is not modelled.
\<close>

datatype chart = BarChart json | Gauge json "color option"

datatype log_entry = LogError error | LogInitFailed

record state =
  ai :: "client option"
  currentProvider :: "provider option"
  currentApiKey :: "jsstring option"
  searchVolumeChart :: "chart option"
  competitionChart :: "chart option"
  resultsContainer :: dom
  logoContainer :: logo
  settingsHidden :: bool
  setupMessageHidden :: bool
  formDisabled :: bool
  controlsDisabled :: bool
  buttonLoading :: bool
  console :: "log_entry list"
  calls :: "call list"

subsection \<open>performAnalysis\<close>

text \<open>What \<open>performAnalysis\<close> returns: \<open>responseText\<close> may be any value or \<open>undefined\<close>; \<open>sources\<close> is \<open>None\<close> for \<open>null\<close> and for \<open>undefined\<close>.\<close>

record raw_response =
  responseText :: "json option"
  sources :: "chunk list option"

text \<open>The endpoint and model the \<open>switch\<close> sets; both stay empty for a provider without a case.\<close>

fun endpoint :: "provider \<Rightarrow> jsstring" where
  "endpoint OpenAI = js ''https://api.openai.com/v1/chat/completions''"
| "endpoint Mistral = js ''https://api.mistral.ai/v1/chat/completions''"
| "endpoint OpenRouter = js ''https://openrouter.ai/api/v1/chat/completions''"
| "endpoint GoogleAI = []"

fun model_of :: "provider \<Rightarrow> jsstring" where
  "model_of OpenAI = js ''gpt-4o''"
| "model_of Mistral = js ''mistral-large-latest''"
| "model_of OpenRouter = js ''google/gemini-flash-1.5''"
| "model_of GoogleAI = []"

definition headers_of :: "provider \<Rightarrow> jsstring \<Rightarrow> (jsstring \<times> jsstring) list" where
  "headers_of provider apiKey =
     [(js ''Content-Type'', js ''application/json''),
      (js ''Authorization'', js ''Bearer '' @ apiKey)]
     @ (if provider = OpenRouter then
          [(js ''HTTP-Referer'', js ''https://keyword-analyzer.com''),
           (js ''X-Title'', js ''Keyword Analyzer'')]
        else [])"

definition request_body :: "jsstring \<Rightarrow> jsstring \<Rightarrow> json" where
  "request_body m prompt =
     JObj [(js ''model'', JStr m),
           (js ''messages'', JArr [JObj [(js ''role'', JStr (js ''user'')), (js ''content'', JStr prompt)]]),
           (js ''response_format'', JObj [(js ''type'', JStr (js ''json_object''))])]"

text \<open>\<open>response.candidates?.[0]?.groundingMetadata?.groundingChunks\<close>\<close>

definition grounding_chunks :: "generate_response \<Rightarrow> chunk list option" where
  "grounding_chunks r =
     (case candidates r of
        None \<Rightarrow> None
      | Some cs \<Rightarrow>
          (case cs of
             [] \<Rightarrow> None
           | c # _ \<Rightarrow>
               (case groundingMetadata c of None \<Rightarrow> None | Some m \<Rightarrow> groundingChunks m)))"

text \<open>\<open>data.choices[0].message.content\<close>, with no guard on the way.\<close>

definition envelope_content :: "json \<Rightarrow> error + json option" where
  "envelope_content data =
     (case get_prop (Some data) (js ''choices'') of
        Inl e \<Rightarrow> Inl e
      | Inr choices \<Rightarrow>
          (case get_index0 choices of
             Inl e \<Rightarrow> Inl e
           | Inr first \<Rightarrow>
               (case get_prop first (js ''message'') of
                  Inl e \<Rightarrow> Inl e
                | Inr msg \<Rightarrow> get_prop msg (js ''content''))))"

definition error_message :: "provider \<Rightarrow> response \<Rightarrow> jsstring" where
  "error_message provider r =
     js ''API request failed for '' @ provider_name provider @ js '': '' @ statusText r
     @ js '' - '' @ bodyText r"

definition issue :: "call \<Rightarrow> state \<Rightarrow> state" where
  "issue c st = st\<lparr>calls := calls st @ [c]\<rparr>"

text \<open>The request of the grounded provider, and the request the other three share.\<close>

definition grounded_request :: "jsstring \<Rightarrow> generate_request" where
  "grounded_request prompt =
     \<lparr>model = js ''gemini-2.5-flash'', contents = prompt, tools = [GoogleSearch]\<rparr>"

definition fetch_request :: "provider \<Rightarrow> jsstring \<Rightarrow> jsstring \<Rightarrow> http_request" where
  "fetch_request provider apiKey prompt =
     \<lparr>url = endpoint provider, http_method = js ''POST'',
      headers = headers_of provider apiKey,
      body = request_body (model_of provider) prompt\<rparr>"

definition performAnalysis ::
  "world \<Rightarrow> jsstring \<Rightarrow> jsstring \<Rightarrow> jsstring \<Rightarrow> provider \<Rightarrow> jsstring \<Rightarrow> state
     \<Rightarrow> state \<times> (error + raw_response)" where
  "performAnalysis w keyword country language provider apiKey st =
     (let prompt = createPrompt keyword country language (provider = GoogleAI)
      in if provider = GoogleAI then
           (case ai st of
              None \<Rightarrow> (st, Inl ClientNotInitialized)
            | Some c \<Rightarrow>
                (let st' = issue (GenerateContent c (grounded_request prompt)) st
                 in case generateContent w c (grounded_request prompt) of
                      SdkRejected \<Rightarrow> (st', Inl NetworkError)
                    | SdkResponse r \<Rightarrow>
                        (st', Inr \<lparr>responseText = map_option JStr (response_text r),
                                   sources = grounding_chunks r\<rparr>)))
         else
           (let st' = issue (Fetch (fetch_request provider apiKey prompt)) st
            in case fetch w (fetch_request provider apiKey prompt) of
                 FetchRejected \<Rightarrow> (st', Inl NetworkError)
               | FetchResponse r \<Rightarrow>
                   if \<not> ok r then (st', Inl (ProviderHTTPError (error_message provider r)))
                   else
                     (case JSON_parse (bodyText r) of
                        Inl e \<Rightarrow> (st', Inl e)
                      | Inr data \<Rightarrow>
                          (case envelope_content data of
                             Inl e \<Rightarrow> (st', Inl e)
                           | Inr content \<Rightarrow>
                               (st', Inr \<lparr>responseText = content, sources = None\<rparr>)))))"

subsection \<open>Rendering\<close>

definition setLoading :: "bool \<Rightarrow> state \<Rightarrow> state" where
  "setLoading isLoading st = st\<lparr>controlsDisabled := isLoading, buttonLoading := isLoading\<rparr>"

definition renderError :: "message \<Rightarrow> state \<Rightarrow> state" where
  "renderError m st = st\<lparr>resultsContainer := ErrorMessage m\<rparr>"

text \<open>\<open>document.getElementById\<close> of the two canvases: each is there when its card has one.\<close>

definition has_canvas :: "(results \<Rightarrow> card option) \<Rightarrow> dom \<Rightarrow> bool" where
  "has_canvas which d =
     (case d of
        Results v \<Rightarrow> (case which v of None \<Rightarrow> False | Some c \<Rightarrow> card_canvas c)
      | _ \<Rightarrow> False)"

text \<open>
  \<open>renderSearchVolumeChart\<close>: the title of the chart is \<open>value.toLocaleString('ar-EG')\<close>,
  which throws a TypeError when it cannot be called. The constructor of the chart belongs
  to the charting library and is taken not to throw.
\<close>

definition renderSearchVolumeChart :: "json \<Rightarrow> state \<Rightarrow> state \<times> error option" where
  "renderSearchVolumeChart v st =
     (if \<not> has_canvas volume_card (resultsContainer st) then (st, None)
      else if \<not> locale_stringifies v then (st, Some TypeError)
      else (st\<lparr>searchVolumeChart := Some (BarChart v)\<rparr>, None))"

text \<open>The colour \<open>renderCompetitionChart\<close> chooses for a score of its declared type \<open>number\<close>.\<close>

definition competition_color :: "number \<Rightarrow> color" where
  "competition_color score =
     (if num_le score 33 then Green
      else if num_le score 66 then Yellow
      else Red)"

text \<open>
  \<open>renderCompetitionChart\<close>: the comparison \<open>score <= 33\<close> converts a score that is not a
  number to a primitive first, which throws a TypeError under the conditions of
  \<open>stringifies\<close>.
\<close>

definition renderCompetitionChart :: "json \<Rightarrow> state \<Rightarrow> state \<times> error option" where
  "renderCompetitionChart score st =
     (if \<not> has_canvas competition_card (resultsContainer st) then (st, None)
      else if \<not> stringifies score then (st, Some TypeError)
      else (st\<lparr>competitionChart :=
                Some (Gauge score (case score of JNum n \<Rightarrow> Some (competition_color n) | _ \<Rightarrow> None))\<rparr>,
            None))"

text \<open>\<open>const { ... } = data\<close>: destructuring \<open>null\<close> throws; a value that is not an object has none of the keys.\<close>

definition destructure :: "json \<Rightarrow> error + (jsstring \<Rightarrow> json option)" where
  "destructure data =
     (case data of
        JNull \<Rightarrow> Inl TypeError
      | JObj kvs \<Rightarrow> Inr (lookup kvs)
      | _ \<Rightarrow> Inr (\<lambda>k. None))"

text \<open>
  One card of the template: it is there when the value is not \<open>undefined\<close> or the label is
  truthy; it shows \<open>label || marker\<close>, converting a truthy label to a string.
\<close>

definition render_card :: "json option \<Rightarrow> json option \<Rightarrow> error + card option" where
  "render_card lbl val =
     (if val \<noteq> None \<or> truthy lbl then
        (case lbl of
           None \<Rightarrow> Inr (Some \<lparr>card_label = Unavailable, card_canvas = (val \<noteq> None)\<rparr>)
         | Some l \<Rightarrow>
             if \<not> truthy lbl then Inr (Some \<lparr>card_label = Unavailable, card_canvas = (val \<noteq> None)\<rparr>)
             else if \<not> stringifies l then Inl TypeError
             else Inr (Some \<lparr>card_label = Shown l, card_canvas = (val \<noteq> None)\<rparr>))
      else Inr None)"

text \<open>
  \<open>(xs || []).map((item) => `<li>${item}</li>`)\<close>: a truthy value that is not an array has
  no \<open>map\<close>, and the call throws; so does the conversion of an item to a string.
\<close>

definition list_items :: "json option \<Rightarrow> error + json list" where
  "list_items v =
     (if truthy v then
        (case v of
           Some (JArr xs) \<Rightarrow> if list_all stringifies xs then Inr xs else Inl TypeError
         | _ \<Rightarrow> Inl TypeError)
      else Inr [])"

text \<open>The template of the results, in the order in which its parts are evaluated.\<close>

definition results_markup :: "(jsstring \<Rightarrow> json option) \<Rightarrow> error + results" where
  "results_markup get =
     (case render_card (get (js ''searchVolume'')) (get (js ''searchVolumeValue'')) of
        Inl e \<Rightarrow> Inl e
      | Inr volume \<Rightarrow>
          (case render_card (get (js ''competition'')) (get (js ''competitionScore'')) of
             Inl e \<Rightarrow> Inl e
           | Inr competition \<Rightarrow>
               (case list_items (get (js ''alternatives'')) of
                  Inl e \<Rightarrow> Inl e
                | Inr alts \<Rightarrow>
                    (case list_items (get (js ''suggestedTitles'')) of
                       Inl e \<Rightarrow> Inl e
                     | Inr titles \<Rightarrow>
                         (case list_items (get (js ''longTailKeywords'')) of
                            Inl e \<Rightarrow> Inl e
                          | Inr tails \<Rightarrow>
                              Inr \<lparr>volume_card = volume, competition_card = competition,
                                   alternatives_list = alts, titles_list = titles,
                                   long_tail_list = tails, sources_list = None\<rparr>)))))"

text \<open>\<open>source.web.title || source.web.uri\<close>\<close>

definition source_link :: "chunk \<Rightarrow> link option" where
  "source_link s =
     (case web s of
        None \<Rightarrow> None
      | Some w \<Rightarrow>
          Some \<lparr>href = uri w,
                link_text = (if title w \<noteq> None \<and> title w \<noteq> Some [] then title w else uri w)\<rparr>)"

text \<open>The card of the sources: none without sources, and none when no source has a \<open>web\<close> part.\<close>

definition render_sources :: "chunk list option \<Rightarrow> link list option" where
  "render_sources srcs =
     (case srcs of
        None \<Rightarrow> None
      | Some cs \<Rightarrow>
          if cs = [] then None
          else (let links = List.map_filter source_link cs
                in if links = [] then None else Some links))"

text \<open>
  \<open>renderResults\<close>: the state it leaves and the error it threw, if any. An error of the
  template leaves the container empty; an error of a chart leaves the markup in place.
\<close>

definition renderResults :: "json \<Rightarrow> chunk list option \<Rightarrow> state \<Rightarrow> state \<times> error option" where
  "renderResults data srcs st =
     (let st1 = st\<lparr>searchVolumeChart := None, competitionChart := None, resultsContainer := Empty\<rparr>
      in case destructure data of
           Inl e \<Rightarrow> (st1, Some e)
         | Inr get \<Rightarrow>
             (case results_markup get of
                Inl e \<Rightarrow> (st1, Some e)
              | Inr view \<Rightarrow>
                  (case (case get (js ''searchVolumeValue'') of
                           None \<Rightarrow> (st1\<lparr>resultsContainer := Results view\<rparr>, None)
                         | Some v \<Rightarrow>
                             renderSearchVolumeChart v (st1\<lparr>resultsContainer := Results view\<rparr>)) of
                     (st3, Some e) \<Rightarrow> (st3, Some e)
                   | (st3, None) \<Rightarrow>
                       (case (case get (js ''competitionScore'') of
                                None \<Rightarrow> (st3, None)
                              | Some s \<Rightarrow> renderCompetitionChart s st3) of
                          (st4, Some e) \<Rightarrow> (st4, Some e)
                        | (st4, None) \<Rightarrow>
                            (st4\<lparr>resultsContainer :=
                                   Results (view\<lparr>sources_list := render_sources srcs\<rparr>)\<rparr>,
                             None)))))"

subsection \<open>The submit handler\<close>

text \<open>\<open>responseText.substring(responseText.indexOf('{'), responseText.lastIndexOf('}') + 1)\<close>\<close>

definition extract_json :: "jsstring \<Rightarrow> jsstring" where
  "extract_json t = substring t (indexOf t (ch CHR ''{'')) (lastIndexOf t (ch CHR ''}'') + 1)"

text \<open>
  The body of the \<open>try\<close>: the state it leaves and the error it threw, if any. A
  \<open>responseText\<close> that is not a string has no \<open>substring\<close> to call, which throws a TypeError.
\<close>

definition try_analysis ::
  "world \<Rightarrow> jsstring \<Rightarrow> jsstring \<Rightarrow> jsstring \<Rightarrow> provider \<Rightarrow> jsstring \<Rightarrow> state
     \<Rightarrow> state \<times> error option" where
  "try_analysis w keyword country language provider apiKey st =
     (case performAnalysis w keyword country language provider apiKey st of
        (st', Inl e) \<Rightarrow> (st', Some e)
      | (st', Inr r) \<Rightarrow>
          (case responseText r of
             Some (JStr t) \<Rightarrow>
               (case JSON_parse (extract_json t) of
                  Inl e \<Rightarrow> (st', Some e)
                | Inr data \<Rightarrow> renderResults data (sources r) st')
           | _ \<Rightarrow> (st', Some TypeError)))"

text \<open>
  The handler of the form, given the values of the three inputs. The \<open>catch\<close> logs the
  error and shows one message; the \<open>finally\<close> ends the loading state.
\<close>

definition submit :: "world \<Rightarrow> jsstring \<Rightarrow> jsstring \<Rightarrow> jsstring \<Rightarrow> state \<Rightarrow> state" where
  "submit w input_value country_value language_value st =
     (case (currentProvider st, currentApiKey st) of
        (Some provider, Some apiKey) \<Rightarrow>
          if apiKey = [] then renderError MsgSetupFirst st
          else
            (let keyword = trim input_value;
                 country = trim country_value;
                 language = trim language_value
             in if keyword = [] then st
                else
                  (let st1 = (setLoading True st)\<lparr>resultsContainer := Loader\<rparr>;
                       (st2, err) = try_analysis w keyword country language provider apiKey st1
                   in setLoading False
                        (case err of
                           None \<Rightarrow> st2
                         | Some e \<Rightarrow>
                             renderError MsgAnalysisFailed
                               (st2\<lparr>console := console st2 @ [LogError e]\<rparr>))))
      | _ \<Rightarrow> renderError MsgSetupFirst st)"

subsection \<open>Setup\<close>

definition showSetup :: "state \<Rightarrow> state" where
  "showSetup st =
     st\<lparr>settingsHidden := False, setupMessageHidden := False, formDisabled := True,
        controlsDisabled := True\<rparr>"

text \<open>
  \<open>generateAndSetLogo\<close> up to its \<open>await\<close>: the loader is shown and the image is asked
  for. What follows the \<open>await\<close> changes the logo only.
\<close>

definition generateAndSetLogo :: "state \<Rightarrow> state" where
  "generateAndSetLogo st =
     (case ai st of
        None \<Rightarrow> st
      | Some c \<Rightarrow> issue (GenerateImages c) (st\<lparr>logoContainer := LogoLoader\<rparr>))"

definition enable_form :: "state \<Rightarrow> state" where
  "enable_form st =
     st\<lparr>settingsHidden := True, setupMessageHidden := True, formDisabled := False,
        controlsDisabled := False\<rparr>"

text \<open>
  \<open>setupApplication\<close>. The client is made from \<open>process.env.API_KEY\<close>, not from the
  parameter \<open>apiKey\<close>. When the constructor throws, the two assignments before it stay.
\<close>

definition setupApplication :: "world \<Rightarrow> provider \<Rightarrow> jsstring \<Rightarrow> state \<Rightarrow> state" where
  "setupApplication w provider apiKey st =
     (let st1 = st\<lparr>currentProvider := Some provider, currentApiKey := Some apiKey\<rparr>
      in if provider = GoogleAI then
           (if constructor_throws w (env_API_KEY w) then
              showSetup (renderError MsgInitFailed (st1\<lparr>console := console st1 @ [LogInitFailed]\<rparr>))
            else enable_form (generateAndSetLogo (st1\<lparr>ai := Some (GoogleGenAI (env_API_KEY w))\<rparr>)))
         else enable_form (st1\<lparr>ai := None, logoContainer := LogoEmpty\<rparr>))"

subsection \<open>Concrete worlds and states\<close>

text \<open>
  The state when the script is loaded: the module variables are \<open>null\<close>, nothing is
  rendered, nothing has been logged or sent.
\<close>

definition fresh :: state where
  "fresh =
     \<lparr>ai = None, currentProvider = None, currentApiKey = None,
      searchVolumeChart = None, competitionChart = None,
      resultsContainer = Empty, logoContainer = LogoEmpty,
      settingsHidden = True, setupMessageHidden = True,
      formDisabled = False, controlsDisabled = False, buttonLoading = False,
      console = [], calls = []\<rparr>"

text \<open>A world in which every request gets the same response, and the SDK the same answer.\<close>

definition answering :: "response \<Rightarrow> generate_response \<Rightarrow> world" where
  "answering r g =
     \<lparr>env_API_KEY = Some (js ''env-key''),
      constructor_throws = (\<lambda>k. k = None),
      fetch = (\<lambda>q. FetchResponse r),
      generateContent = (\<lambda>c q. SdkResponse g)\<rparr>"

definition http_ok :: "jsstring \<Rightarrow> response" where
  "http_ok b = \<lparr>status = 200, statusText = js ''OK'', bodyText = b\<rparr>"

definition no_answer :: generate_response where
  "no_answer = \<lparr>response_text = None, candidates = None\<rparr>"

text \<open>A world without the environment variable, in which the constructor of the client throws.\<close>

definition unconfigured :: world where
  "unconfigured = (answering (http_ok []) no_answer)\<lparr>env_API_KEY := None\<rparr>"

subsection \<open>Further concrete inputs and predicates of the statements\<close>

text \<open>What rendering leaves alone: the module variables of the dispatch, the trace and the log.\<close>

definition untouched :: "state \<Rightarrow> state \<Rightarrow> bool" where
  "untouched st st' =
     (ai st' = ai st \<and> currentProvider st' = currentProvider st
      \<and> currentApiKey st' = currentApiKey st \<and> calls st' = calls st
      \<and> console st' = console st)"

text \<open>A response that is not ok.\<close>

definition not_found :: response where
  "not_found = \<lparr>status = 404, statusText = js ''Not Found'', bodyText = js ''no such model''\<rparr>"

text \<open>Bodies of chat completions: one whose content is \<open>42{\<close>, one without \<open>content\<close>.\<close>

definition bare_number_reply :: jsstring where
  \<open>bare_number_reply = js ''{"choices":[{"message":{"content":"42{"}}]}''\<close>

definition no_content_reply :: jsstring where
  \<open>no_content_reply = js ''{"choices":[{"message":{}}]}''\<close>






definition with_client :: state where
  "with_client = fresh\<lparr>ai := Some (GoogleGenAI None), currentProvider := Some GoogleAI,
                       currentApiKey := Some (js ''k'')\<rparr>"






section \<open>Properties\<close>

subsection \<open>What one dispatch does to the state\<close>

lemma performAnalysis_fetch:
  "provider \<noteq> GoogleAI \<Longrightarrow>
   fst (performAnalysis w k c l provider key st)
     = issue (Fetch (fetch_request provider key (createPrompt k c l False))) st"
  by (simp add: performAnalysis_def Let_def split: fetch_outcome.splits sum.splits)

lemma performAnalysis_grounded:
  "ai st = Some cl \<Longrightarrow>
   fst (performAnalysis w k c l GoogleAI key st)
     = issue (GenerateContent cl (grounded_request (createPrompt k c l True))) st"
  by (simp add: performAnalysis_def Let_def split: sdk_outcome.splits)

lemma performAnalysis_no_client:
  "ai st = None \<Longrightarrow> performAnalysis w k c l GoogleAI key st = (st, Inl ClientNotInitialized)"
  by (simp add: performAnalysis_def)

subsection \<open>The prompt\<close>

text \<open>
  C2. The prompt is a function of keyword, country, language and the grounding flag:
  the fixed head, the keyword, the location instruction, a space, the search instruction
  and the fixed tail. The four combinations of an empty or non-empty country and language
  give the four phrasings of the location instruction, which differ from one another.
  The search instruction is "using Google Search" exactly when grounding is asked for,
  and "based on your extensive knowledge" exactly when it is not; \<open>performAnalysis\<close> asks
  for grounding exactly when the provider is Google AI, as the request it issues shows.
\<close>

theorem createPrompt_phrasings:
  \<open>createPrompt keyword country language grounding =
       prompt_head @ keyword @ js ''"'' @ locationInstruction country language @ js '' ''
       @ searchInstruction grounding @ prompt_tail
   \<and> (country \<noteq> [] \<and> language \<noteq> [] \<longrightarrow>
        locationInstruction country language =
          js '' for the target country "'' @ country @ js ''" and language "'' @ language @ js ''"'')
   \<and> (country \<noteq> [] \<and> language = [] \<longrightarrow>
        locationInstruction country language = js '' for the target country "'' @ country @ js ''"'')
   \<and> (country = [] \<and> language \<noteq> [] \<longrightarrow>
        locationInstruction country language = js '' for the target language "'' @ language @ js ''"'')
   \<and> (country = [] \<and> language = [] \<longrightarrow> locationInstruction country language = [])
   \<and> (country \<noteq> [] \<and> language \<noteq> [] \<longrightarrow>
        distinct [locationInstruction country language, locationInstruction country [],
                  locationInstruction [] language, locationInstruction [] []])
   \<and> (searchInstruction grounding = js ''using Google Search'') = grounding
   \<and> (searchInstruction grounding = js ''based on your extensive knowledge'') = (\<not> grounding)
   \<and> (provider \<noteq> GoogleAI \<longrightarrow>
        fst (performAnalysis w keyword country language provider apiKey st) =
          issue (Fetch (fetch_request provider apiKey
                          (createPrompt keyword country language False))) st)
   \<and> (ai st = Some cl \<longrightarrow>
        fst (performAnalysis w keyword country language GoogleAI apiKey st) =
          issue (GenerateContent cl
                   (grounded_request (createPrompt keyword country language True))) st)\<close>
proof -
  have phr: \<open>distinct [locationInstruction country language, locationInstruction country [],
                  locationInstruction [] language, locationInstruction [] []]\<close>
    if "country \<noteq> []" "language \<noteq> []"
    using that by (simp add: locationInstruction_def js_def)
  have si: \<open>(searchInstruction grounding = js ''using Google Search'') = grounding\<close>
    \<open>(searchInstruction grounding = js ''based on your extensive knowledge'') = (\<not> grounding)\<close>
    by (simp_all add: searchInstruction_def js_def)
  show ?thesis
    using phr si performAnalysis_fetch [of provider w keyword country language apiKey st]
      performAnalysis_grounded [of st cl w keyword country language apiKey]
    by (simp add: createPrompt_def locationInstruction_def)
qed

theorem createPrompt_phrasings_witness:
  \<open>js ''Egypt'' \<noteq> [] \<and> js ''Arabic'' \<noteq> []
   \<and> locationInstruction (js ''Egypt'') (js ''Arabic'') =
        js '' for the target country "Egypt" and language "Arabic"''
   \<and> locationInstruction (js ''Egypt'') [] = js '' for the target country "Egypt"''
   \<and> locationInstruction [] (js ''Arabic'') = js '' for the target language "Arabic"''
   \<and> locationInstruction [] [] = []
   \<and> distinct [locationInstruction (js ''Egypt'') (js ''Arabic''), locationInstruction (js ''Egypt'') [],
               locationInstruction [] (js ''Arabic''), locationInstruction [] []]
   \<and> searchInstruction True = js ''using Google Search''
   \<and> searchInstruction False = js ''based on your extensive knowledge''
   \<and> OpenAI \<noteq> GoogleAI
   \<and> calls (fst (performAnalysis unconfigured (js ''seo'') [] [] OpenAI (js ''k'') fresh)) =
       [Fetch (fetch_request OpenAI (js ''k'') (createPrompt (js ''seo'') [] [] False))]
   \<and> ai with_client = Some (GoogleGenAI None)
   \<and> calls (fst (performAnalysis unconfigured (js ''seo'') [] [] GoogleAI (js ''k'') with_client)) =
       [GenerateContent (GoogleGenAI None) (grounded_request (createPrompt (js ''seo'') [] [] True))]\<close>
proof -
  have a: "ai with_client = Some (GoogleGenAI None)" "calls with_client = []" "calls fresh = []"
    by (simp_all add: with_client_def fresh_def)
  from createPrompt_phrasings [where country = "js ''Egypt''" and language = "js ''Arabic''"
        and grounding = True and provider = OpenAI and w = unconfigured and keyword = "js ''seo''"
        and apiKey = "js ''k''" and st = fresh]
    createPrompt_phrasings [where country = "js ''Egypt''" and language = "[]"
        and grounding = False and provider = OpenAI]
    createPrompt_phrasings [where country = "[]" and language = "js ''Arabic''"
        and grounding = False and provider = OpenAI]
    createPrompt_phrasings [where country = "[]" and language = "[]" and keyword = "js ''seo''"
        and grounding = False and provider = OpenAI and w = unconfigured
        and apiKey = "js ''k''" and st = fresh]
    createPrompt_phrasings [where country = "[]" and language = "[]" and keyword = "js ''seo''"
        and grounding = False and provider = GoogleAI and w = unconfigured
        and apiKey = "js ''k''" and st = with_client and cl = "GoogleGenAI None"]
    a
  show ?thesis
    by (simp add: js_def issue_def)
qed

subsection \<open>The request of the three providers without grounding\<close>

text \<open>
  C3. For OpenAI, Mistral and OpenRouter one dispatch adds one call to the trace: a
  \<open>fetch\<close> with method POST to the provider's endpoint, whose headers give Content-Type
  application/json and Authorization "Bearer " followed by the credential, and whose body
  holds the provider's model, one message of role user with the prompt as content, and the
  response format json_object. For OpenAI with an empty country and language the request
  goes to the chat completions endpoint of OpenAI with model gpt-4o, and the prompt has an
  empty location instruction and the search instruction "based on your extensive knowledge".
\<close>

theorem dispatcher_http_request:
  \<open>(provider \<noteq> GoogleAI \<longrightarrow>
      calls (fst (performAnalysis w keyword country language provider apiKey st)) =
        calls st @ [Fetch (fetch_request provider apiKey
                             (createPrompt keyword country language False))])
   \<and> http_method (fetch_request provider apiKey prompt) = js ''POST''
   \<and> url (fetch_request OpenAI apiKey prompt) = js ''https://api.openai.com/v1/chat/completions''
   \<and> url (fetch_request Mistral apiKey prompt) = js ''https://api.mistral.ai/v1/chat/completions''
   \<and> url (fetch_request OpenRouter apiKey prompt) = js ''https://openrouter.ai/api/v1/chat/completions''
   \<and> map_of (headers (fetch_request provider apiKey prompt)) (js ''Content-Type'') =
        Some (js ''application/json'')
   \<and> map_of (headers (fetch_request provider apiKey prompt)) (js ''Authorization'') =
        Some (js ''Bearer '' @ apiKey)
   \<and> body (fetch_request provider apiKey prompt) =
        JObj [(js ''model'',
               JStr (case provider of
                       OpenAI \<Rightarrow> js ''gpt-4o''
                     | Mistral \<Rightarrow> js ''mistral-large-latest''
                     | OpenRouter \<Rightarrow> js ''google/gemini-flash-1.5''
                     | GoogleAI \<Rightarrow> [])),
              (js ''messages'',
               JArr [JObj [(js ''role'', JStr (js ''user'')), (js ''content'', JStr prompt)]]),
              (js ''response_format'', JObj [(js ''type'', JStr (js ''json_object''))])]
   \<and> calls (fst (performAnalysis w (js ''seo tools'') [] [] OpenAI apiKey st)) =
        calls st @
        [Fetch \<lparr>url = js ''https://api.openai.com/v1/chat/completions'',
                http_method = js ''POST'',
                headers = [(js ''Content-Type'', js ''application/json''),
                           (js ''Authorization'', js ''Bearer '' @ apiKey)],
                body = JObj [(js ''model'', JStr (js ''gpt-4o'')),
                             (js ''messages'',
                              JArr [JObj [(js ''role'', JStr (js ''user'')),
                                          (js ''content'',
                                           JStr (prompt_head @ js ''seo tools'' @ js ''"'' @ []
                                                 @ js '' '' @ js ''based on your extensive knowledge''
                                                 @ prompt_tail))]]),
                             (js ''response_format'', JObj [(js ''type'', JStr (js ''json_object''))])]\<rparr>]
   \<and> locationInstruction [] [] = []
   \<and> searchInstruction False = js ''based on your extensive knowledge''\<close>
proof -
  have keys: "js ''Content-Type'' \<noteq> js ''Authorization''"
    by (simp add: js_def)
  have one: "calls (fst (performAnalysis w k c l p apiKey st)) =
      calls st @ [Fetch (fetch_request p apiKey (createPrompt k c l False))]"
    if "p \<noteq> GoogleAI" for p k c l
    using performAnalysis_fetch [OF that] by (simp add: issue_def)
  have example: "fetch_request OpenAI apiKey (createPrompt (js ''seo tools'') [] [] False) =
      \<lparr>url = js ''https://api.openai.com/v1/chat/completions'',
       http_method = js ''POST'',
       headers = [(js ''Content-Type'', js ''application/json''),
                  (js ''Authorization'', js ''Bearer '' @ apiKey)],
       body = JObj [(js ''model'', JStr (js ''gpt-4o'')),
                    (js ''messages'',
                     JArr [JObj [(js ''role'', JStr (js ''user'')),
                                 (js ''content'',
                                  JStr (prompt_head @ js ''seo tools'' @ js [CHR 0x22] @ []
                                        @ js '' '' @ js ''based on your extensive knowledge''
                                        @ prompt_tail))]]),
                    (js ''response_format'', JObj [(js ''type'', JStr (js ''json_object''))])]\<rparr>"
    by (simp add: fetch_request_def headers_of_def request_body_def createPrompt_def
        locationInstruction_def searchInstruction_def)
  have openai: "calls (fst (performAnalysis w (js ''seo tools'') [] [] OpenAI apiKey st)) =
      calls st @ [Fetch (fetch_request OpenAI apiKey (createPrompt (js ''seo tools'') [] [] False))]"
    by (rule one) simp
  show ?thesis
    using one [of provider keyword country language] openai example keys
    by (cases provider)
       (simp_all add: fetch_request_def headers_of_def request_body_def
          locationInstruction_def searchInstruction_def)
qed

theorem dispatcher_http_request_witness:
  \<open>Mistral \<noteq> GoogleAI
   \<and> calls (fst (performAnalysis unconfigured (js ''seo'') [] [] Mistral (js ''k'') fresh)) =
       [Fetch (fetch_request Mistral (js ''k'') (createPrompt (js ''seo'') [] [] False))]\<close>
  using dispatcher_http_request [of Mistral unconfigured "js ''seo''" "[]" "[]" "js ''k''" fresh]
  by (simp add: fresh_def)

subsection \<open>The gauge\<close>



subsection \<open>Dispatch, rendering and the submit handler\<close>

lemma untouched_page:
  "untouched st st"
  "untouched st (x\<lparr>resultsContainer := d\<rparr>) = untouched st x"
  "untouched st (x\<lparr>searchVolumeChart := c\<rparr>) = untouched st x"
  "untouched st (x\<lparr>competitionChart := c\<rparr>) = untouched st x"
  by (simp_all add: untouched_def)

lemma renderSearchVolumeChart_untouched:
  "renderSearchVolumeChart v x = (x', e) \<Longrightarrow> untouched st x' = untouched st x"
  by (auto simp: renderSearchVolumeChart_def untouched_def split: if_splits)

lemma renderCompetitionChart_untouched:
  "renderCompetitionChart v x = (x', e) \<Longrightarrow> untouched st x' = untouched st x"
  by (auto simp: renderCompetitionChart_def untouched_def split: if_splits)

lemma renderResults_untouched: "renderResults d s st = (st', e) \<Longrightarrow> untouched st st'"
  unfolding renderResults_def Let_def
  by (auto simp: untouched_page renderSearchVolumeChart_untouched
      renderCompetitionChart_untouched
      split: sum.splits option.splits prod.splits)

lemma performAnalysis_state:
  "fst (performAnalysis w k c l p key st) =
     (if p = GoogleAI then
        (case ai st of
           None \<Rightarrow> st
         | Some cl \<Rightarrow> issue (GenerateContent cl (grounded_request (createPrompt k c l True))) st)
      else issue (Fetch (fetch_request p key (createPrompt k c l False))) st)"
  by (simp add: performAnalysis_fetch performAnalysis_grounded performAnalysis_no_client
      split: option.splits)

lemma try_analysis_untouched:
  "try_analysis w k c l p key st = (st', e) \<Longrightarrow>
   untouched (fst (performAnalysis w k c l p key st)) st'"
  unfolding try_analysis_def
  by (auto simp: untouched_page dest: renderResults_untouched
      split: prod.splits sum.splits option.splits json.splits)

lemma try_analysis_module:
  assumes "try_analysis w k c l p key st = (st', e)"
  shows "ai st' = ai st" and "currentProvider st' = currentProvider st"
    and "currentApiKey st' = currentApiKey st" and "console st' = console st"
    and "calls st' = calls (fst (performAnalysis w k c l p key st))"
  using try_analysis_untouched [OF assms]
  by (simp_all add: untouched_def performAnalysis_state issue_def split: option.splits)

lemma submit_module:
  "ai (submit w iv cv lv st) = ai st
   \<and> currentProvider (submit w iv cv lv st) = currentProvider st
   \<and> currentApiKey (submit w iv cv lv st) = currentApiKey st"
  unfolding submit_def Let_def
  by (auto simp: renderError_def setLoading_def
      split: option.splits prod.splits dest: try_analysis_module(1,2,3))

lemma submit_empty_keyword: "trim iv = [] \<Longrightarrow> calls (submit w iv cv lv st) = calls st"
  by (simp add: submit_def renderError_def split: option.splits)

lemma submit_calls:
  "calls (submit w iv cv lv st) = calls st
   \<or> (\<exists>call. calls (submit w iv cv lv st) = calls st @ [call])"
  unfolding submit_def Let_def
  by (auto simp: renderError_def setLoading_def performAnalysis_state issue_def
      split: option.splits prod.splits if_splits dest!: try_analysis_module(5))

lemmas world_defs = answering_def unconfigured_def http_ok_def no_answer_def not_found_def

lemmas setup_defs = setupApplication_def enable_form_def showSetup_def generateAndSetLogo_def
  renderError_def issue_def fresh_def

text \<open>
  C4, as amended. One dispatch with the grounded provider selected and no client
  initialised issues no call and fails with ClientNotInitialized, leaving the state as it
  was. Every other dispatch, for any of the four providers, adds exactly one call to the
  trace and changes nothing else, so \<open>ai\<close>, \<open>currentProvider\<close> and \<open>currentApiKey\<close> stay as
  they were. A submission whose trimmed keyword is empty issues no call; any submission
  issues at most one and leaves the three module variables unchanged.
\<close>

theorem dispatch_one_call:
  "(provider = GoogleAI \<and> ai st = None \<longrightarrow>
      performAnalysis w keyword country language provider apiKey st
        = (st, Inl ClientNotInitialized))
   \<and> (provider \<noteq> GoogleAI \<or> ai st \<noteq> None \<longrightarrow>
        (\<exists>call. fst (performAnalysis w keyword country language provider apiKey st)
                  = st\<lparr>calls := calls st @ [call]\<rparr>))
   \<and> (trim input_value = [] \<longrightarrow>
        calls (submit w input_value country_value language_value st) = calls st)
   \<and> (calls (submit w input_value country_value language_value st) = calls st
        \<or> (\<exists>call. calls (submit w input_value country_value language_value st)
                     = calls st @ [call]))
   \<and> ai (submit w input_value country_value language_value st) = ai st
   \<and> currentProvider (submit w input_value country_value language_value st) = currentProvider st
   \<and> currentApiKey (submit w input_value country_value language_value st) = currentApiKey st"
proof -
  have none: "performAnalysis w keyword country language provider apiKey st
        = (st, Inl ClientNotInitialized)"
    if "provider = GoogleAI" "ai st = None"
    using that by (simp add: performAnalysis_no_client)
  have one: "\<exists>call. fst (performAnalysis w keyword country language provider apiKey st)
                  = st\<lparr>calls := calls st @ [call]\<rparr>"
    if "provider \<noteq> GoogleAI \<or> ai st \<noteq> None"
    using that by (auto simp: performAnalysis_state issue_def)
  show ?thesis
    using none one submit_empty_keyword [of input_value w country_value language_value st]
      submit_calls [of w input_value country_value language_value st]
      submit_module [of w input_value country_value language_value st]
    by blast
qed

text \<open>The three cases at concrete inputs: no client, OpenAI, and a keyword of two spaces.\<close>

theorem dispatch_one_call_witness:
  "ai fresh = None
   \<and> performAnalysis unconfigured (js ''seo'') [] [] GoogleAI (js ''k'') fresh
       = (fresh, Inl ClientNotInitialized)
   \<and> OpenAI \<noteq> GoogleAI
   \<and> (\<exists>call. fst (performAnalysis unconfigured (js ''seo'') [] [] OpenAI (js ''k'') fresh)
               = fresh\<lparr>calls := calls fresh @ [call]\<rparr>)
   \<and> trim (js ''  '') = []
   \<and> calls (submit unconfigured (js ''  '') [] [] fresh) = calls fresh"
  using dispatch_one_call [of GoogleAI fresh unconfigured "js ''seo''" "[]" "[]" "js ''k''"
      "js ''  ''" "[]" "[]"]
    dispatch_one_call [of OpenAI fresh unconfigured "js ''seo''" "[]" "[]" "js ''k''"
      "js ''  ''" "[]" "[]"]
  by (simp add: fresh_def trim_def is_js_space_def js_def)

text \<open>
  C4 as stated fails: after a setup whose constructor threw, the provider is Google AI
  and the key is stored, yet a dispatch with the non-empty keyword "seo tools" issues no
  call at all and fails with ClientNotInitialized.
\<close>

theorem dispatch_without_client_counterexample:
  "js ''seo tools'' \<noteq> []
   \<and> currentProvider (setupApplication unconfigured GoogleAI (js ''k'') fresh) = Some GoogleAI
   \<and> currentApiKey (setupApplication unconfigured GoogleAI (js ''k'') fresh) = Some (js ''k'')
   \<and> calls (fst (performAnalysis unconfigured (js ''seo tools'') [] [] GoogleAI (js ''k'')
                    (setupApplication unconfigured GoogleAI (js ''k'') fresh))) = []
   \<and> snd (performAnalysis unconfigured (js ''seo tools'') [] [] GoogleAI (js ''k'')
             (setupApplication unconfigured GoogleAI (js ''k'') fresh)) = Inl ClientNotInitialized"
  by (simp add: performAnalysis_def setup_defs world_defs js_def)

text \<open>
  C8, as amended. When setup runs with Google AI selected and the constructor does not
  throw, the client is constructed with the environment's \<open>API_KEY\<close>; the key the user
  provided is stored as \<open>currentApiKey\<close> and is not given to the client. A later grounded
  dispatch calls \<open>generateContent\<close> on that client. When the constructor throws, no client is
  stored, the initialisation message is shown and the controls are disabled.
\<close>

theorem client_from_environment:
  "(\<not> constructor_throws w (env_API_KEY w) \<longrightarrow>
      ai (setupApplication w GoogleAI apiKey st) = Some (GoogleGenAI (env_API_KEY w))
      \<and> currentProvider (setupApplication w GoogleAI apiKey st) = Some GoogleAI
      \<and> currentApiKey (setupApplication w GoogleAI apiKey st) = Some apiKey
      \<and> calls (fst (performAnalysis w keyword country language GoogleAI apiKey'
                      (setupApplication w GoogleAI apiKey st)))
          = calls st @ [GenerateImages (GoogleGenAI (env_API_KEY w)),
                        GenerateContent (GoogleGenAI (env_API_KEY w))
                          (grounded_request (createPrompt keyword country language True))])
   \<and> (constructor_throws w (env_API_KEY w) \<longrightarrow>
        ai (setupApplication w GoogleAI apiKey st) = ai st
        \<and> resultsContainer (setupApplication w GoogleAI apiKey st) = ErrorMessage MsgInitFailed
        \<and> controlsDisabled (setupApplication w GoogleAI apiKey st))"
  by (simp add: performAnalysis_state setupApplication_def enable_form_def showSetup_def
      generateAndSetLogo_def renderError_def issue_def)

text \<open>Both cases at concrete worlds: one with the environment variable, one without.\<close>

theorem client_from_environment_witness:
  "\<not> constructor_throws (answering not_found no_answer) (env_API_KEY (answering not_found no_answer))
   \<and> ai (setupApplication (answering not_found no_answer) GoogleAI (js ''user-key'') fresh)
       = Some (GoogleGenAI (Some (js ''env-key'')))
   \<and> constructor_throws unconfigured (env_API_KEY unconfigured)
   \<and> ai (setupApplication unconfigured GoogleAI (js ''user-key'') fresh) = None"
  using client_from_environment [of "answering not_found no_answer" "js ''user-key''" fresh]
    client_from_environment [of unconfigured "js ''user-key''" fresh]
  by (simp add: world_defs fresh_def)

text \<open>
  C8 as stated fails: with the user's key "user-key" and the environment's "env-key", the
  client holds "env-key", while \<open>currentApiKey\<close> holds "user-key".
\<close>

theorem client_key_counterexample:
  "ai (setupApplication (answering not_found no_answer) GoogleAI (js ''user-key'') fresh)
     = Some (GoogleGenAI (Some (js ''env-key'')))
   \<and> currentApiKey (setupApplication (answering not_found no_answer) GoogleAI (js ''user-key'') fresh)
     = Some (js ''user-key'')
   \<and> js ''env-key'' \<noteq> js ''user-key''"
  by (simp add: setup_defs world_defs js_def)

lemmas parse_defs = JSON_parse_def js_def punct_def lex_keyword_def lex_token_def is_json_ws_def
  is_digit_def lex_digits_def lex_int_def lex_frac_def lex_exp_def lex_number_def
  literal_value_def scale10_def digits_value_def starts_with_def push_def unescape_def
  hex4_def hex_digit_def

lemmas string_defs = extract_json_def substring_def indexOf_def lastIndexOf_def trim_def
  is_js_space_def

lemmas render_defs = renderResults_def results_markup_def destructure_def list_items_def
  render_card_def
  render_sources_def renderSearchVolumeChart_def renderCompetitionChart_def has_canvas_def
  lookup_def

lemma parse_bare_number_reply:
  "JSON_parse bare_number_reply =
     Inr (JObj [(js ''choices'',
                 JArr [JObj [(js ''message'', JObj [(js ''content'', JStr (js ''42{''))])]])])"
  by (simp add: bare_number_reply_def parse_defs)

lemma parse_no_content_reply:
  "JSON_parse no_content_reply =
     Inr (JObj [(js ''choices'', JArr [JObj [(js ''message'', JObj [])]])])"
  by (simp add: no_content_reply_def parse_defs)

lemma parse_bare_number: "JSON_parse (js ''42'') = Inr (JNum (Fin 42))"
  by (simp add: parse_defs)

lemma extract_bare_number: "extract_json (js ''42{'') = js ''42''"
  by (simp add: string_defs js_def)

lemma extract_json_no_braces:
  "ch CHR ''{'' \<notin> set t \<Longrightarrow> ch CHR ''}'' \<notin> set t \<Longrightarrow>
   JSON_parse (extract_json t) = Inl SyntaxError"
  by (simp add: extract_json_def indexOf_def lastIndexOf_def substring_def JSON_parse_def)

lemma envelope_bare_number:
  "envelope_content (JObj [(js ''choices'',
       JArr [JObj [(js ''message'', JObj [(js ''content'', JStr (js ''42{''))])]])])
   = Inr (Some (JStr (js ''42{'')))"
  by (simp add: envelope_content_def lookup_def js_def)

lemma envelope_no_content:
  "envelope_content (JObj [(js ''choices'', JArr [JObj [(js ''message'', JObj [])]])]) = Inr None"
  by (simp add: envelope_content_def lookup_def js_def)

text \<open>
  C1. The specification says that a text without \<open>}\<close> ends on the error path. The code does
  otherwise when the response is \<open>42{\<close>: \<open>indexOf\<close> gives 2, \<open>lastIndexOf\<close> gives -1,
  \<open>substring(2, 0)\<close> swaps its arguments and yields \<open>42\<close>, which parses as a number;
  the handler renders a result (three empty lists, no card) and logs no error.
\<close>

theorem missing_brace_renders:
  "extract_json (js ''42{'') = js ''42''
   \<and> JSON_parse (js ''42'') = Inr (JNum (Fin 42))
   \<and> resultsContainer
        (submit (answering (http_ok bare_number_reply) no_answer) (js ''seo'') [] []
           (setupApplication (answering (http_ok bare_number_reply) no_answer) OpenAI (js ''k'') fresh))
       = Results \<lparr>volume_card = None, competition_card = None, alternatives_list = [],
                   titles_list = [], long_tail_list = [], sources_list = None\<rparr>
   \<and> console
        (submit (answering (http_ok bare_number_reply) no_answer) (js ''seo'') [] []
           (setupApplication (answering (http_ok bare_number_reply) no_answer) OpenAI (js ''k'') fresh))
       = []"
proof -
  let ?w = "answering (http_ok bare_number_reply) no_answer"
  let ?st = "setupApplication ?w OpenAI (js ''k'') fresh"
  have st: "currentProvider ?st = Some OpenAI" "currentApiKey ?st = Some (js ''k'')"
    "console ?st = []"
    by (simp_all add: setup_defs)
  have k: "js ''k'' \<noteq> []" "trim (js ''seo'') = js ''seo''" "trim [] = []" "js ''seo'' \<noteq> []"
    by (simp_all add: trim_def is_js_space_def js_def)
  have pa: "snd (performAnalysis ?w (js ''seo'') [] [] OpenAI (js ''k'') st1)
      = Inr \<lparr>responseText = Some (JStr (js ''42{'')), sources = None\<rparr>" for st1
    by (simp add: performAnalysis_def Let_def answering_def http_ok_def ok_def
        parse_bare_number_reply envelope_bare_number)
  have rr: "renderResults (JNum (Fin 42)) None st1 =
      (st1\<lparr>searchVolumeChart := None, competitionChart := None,
          resultsContainer := Results \<lparr>volume_card = None, competition_card = None,
             alternatives_list = [], titles_list = [], long_tail_list = [],
             sources_list = None\<rparr>\<rparr>, None)" for st1
    by (simp add: render_defs)
  have ta: "try_analysis ?w (js ''seo'') [] [] OpenAI (js ''k'') st1 =
      ((fst (performAnalysis ?w (js ''seo'') [] [] OpenAI (js ''k'') st1))
         \<lparr>searchVolumeChart := None, competitionChart := None,
          resultsContainer := Results \<lparr>volume_card = None, competition_card = None,
             alternatives_list = [], titles_list = [], long_tail_list = [],
             sources_list = None\<rparr>\<rparr>, None)" for st1
    using pa [of st1]
    by (cases "performAnalysis ?w (js ''seo'') [] [] OpenAI (js ''k'') st1")
       (simp add: try_analysis_def extract_bare_number parse_bare_number rr)
  have sub: "submit ?w (js ''seo'') [] [] ?st =
      setLoading False
        ((fst (performAnalysis ?w (js ''seo'') [] [] OpenAI (js ''k'')
                 ((setLoading True ?st)\<lparr>resultsContainer := Loader\<rparr>)))
         \<lparr>searchVolumeChart := None, competitionChart := None,
          resultsContainer := Results \<lparr>volume_card = None, competition_card = None,
             alternatives_list = [], titles_list = [], long_tail_list = [],
             sources_list = None\<rparr>\<rparr>)"
    by (simp add: submit_def st k ta)
  show ?thesis
    by (simp add: sub extract_bare_number parse_bare_number setLoading_def
        performAnalysis_state issue_def st)
qed

text \<open>In particular the page does not show the error message.\<close>

theorem missing_brace_renders_witness:
  "resultsContainer
     (submit (answering (http_ok bare_number_reply) no_answer) (js ''seo'') [] []
        (setupApplication (answering (http_ok bare_number_reply) no_answer) OpenAI (js ''k'') fresh))
   \<noteq> ErrorMessage MsgAnalysisFailed"
  using missing_brace_renders by simp

lemma submit_catch:
  assumes "currentProvider st = Some provider" and "currentApiKey st = Some apiKey"
    and "apiKey \<noteq> []" and "trim iv \<noteq> []"
    and "try_analysis w (trim iv) (trim cv) (trim lv) provider apiKey
           ((setLoading True st)\<lparr>resultsContainer := Loader\<rparr>) = (st2, Some e)"
  shows "submit w iv cv lv st =
           setLoading False
             (renderError MsgAnalysisFailed (st2\<lparr>console := console st2 @ [LogError e]\<rparr>))"
    and "console st2 = console st"
  using assms try_analysis_module(4) [OF assms(5)]
  by (simp_all add: submit_def setLoading_def)

lemma try_analysis_dispatch_error:
  "performAnalysis w k c l p key st = (st', Inl e) \<Longrightarrow>
   try_analysis w k c l p key st = (st', Some e)"
  by (simp add: try_analysis_def)

lemma try_analysis_undefined_text:
  "performAnalysis w k c l p key st = (st', Inr \<lparr>responseText = None, sources = s\<rparr>) \<Longrightarrow>
   try_analysis w k c l p key st = (st', Some TypeError)"
  by (simp add: try_analysis_def)

lemma get_prop_error: "get_prop v k = Inl e \<Longrightarrow> e = TypeError"
  by (cases "(v, k)" rule: get_prop.cases) auto

lemma get_index0_error: "get_index0 v = Inl e \<Longrightarrow> e = TypeError"
  by (cases v rule: get_index0.cases) auto

lemma envelope_content_error: "envelope_content data = Inl e \<Longrightarrow> e = TypeError"
  unfolding envelope_content_def
  by (auto split: sum.splits dest: get_prop_error get_index0_error)



text \<open>
  C10, as amended. For the three providers without grounding and a response with a
  status from 200 to 299: when the body is not JSON, \<open>performAnalysis\<close> throws the
  error of the parser; when the body is JSON and the path \<open>choices[0].message\<close> cannot be
  walked, it throws a TypeError; when that path can be walked and only \<open>content\<close> is
  missing, it does not throw but returns a response whose text is \<open>undefined\<close>, and the
  submit handler throws the TypeError when it calls \<open>substring\<close>. In all three cases the
  submit handler shows the message MsgAnalysisFailed, no chart is touched and one call has
  been issued.
\<close>

theorem envelope_failures:
  "(provider \<noteq> GoogleAI
    \<and> fetch w (fetch_request provider apiKey (createPrompt keyword country language False))
        = FetchResponse r
    \<and> ok r \<longrightarrow>
      (JSON_parse (bodyText r) = Inl e \<longrightarrow>
         snd (performAnalysis w keyword country language provider apiKey st) = Inl e)
      \<and> (JSON_parse (bodyText r) = Inr data \<and> envelope_content data = Inl e \<longrightarrow>
         e = TypeError
         \<and> snd (performAnalysis w keyword country language provider apiKey st) = Inl e)
      \<and> (JSON_parse (bodyText r) = Inr data \<and> envelope_content data = Inr None \<longrightarrow>
         snd (performAnalysis w keyword country language provider apiKey st)
           = Inr \<lparr>responseText = None, sources = None\<rparr>
         \<and> snd (try_analysis w keyword country language provider apiKey st) = Some TypeError))
   \<and> (currentProvider st = Some provider \<and> currentApiKey st = Some apiKey \<and> apiKey \<noteq> []
       \<and> trim iv \<noteq> [] \<and> provider \<noteq> GoogleAI
       \<and> fetch w (fetch_request provider apiKey (createPrompt (trim iv) (trim cv) (trim lv) False))
           = FetchResponse r
       \<and> ok r
       \<and> (JSON_parse (bodyText r) = Inl e
           \<or> JSON_parse (bodyText r) = Inr data
              \<and> (envelope_content data = Inl e \<or> envelope_content data = Inr None)) \<longrightarrow>
        resultsContainer (submit w iv cv lv st) = ErrorMessage MsgAnalysisFailed
        \<and> searchVolumeChart (submit w iv cv lv st) = searchVolumeChart st
        \<and> competitionChart (submit w iv cv lv st) = competitionChart st
        \<and> calls (submit w iv cv lv st) =
            calls st @ [Fetch (fetch_request provider apiKey
                                 (createPrompt (trim iv) (trim cv) (trim lv) False))])"
proof -
  have first: "(JSON_parse (bodyText r) = Inl e \<longrightarrow> snd (performAnalysis w k c l provider apiKey s) = Inl e)
      \<and> (JSON_parse (bodyText r) = Inr data \<and> envelope_content data = Inl e \<longrightarrow>
         e = TypeError \<and> snd (performAnalysis w k c l provider apiKey s) = Inl e)
      \<and> (JSON_parse (bodyText r) = Inr data \<and> envelope_content data = Inr None \<longrightarrow>
         snd (performAnalysis w k c l provider apiKey s) = Inr \<lparr>responseText = None, sources = None\<rparr>)"
    if "provider \<noteq> GoogleAI"
      "fetch w (fetch_request provider apiKey (createPrompt k c l False)) = FetchResponse r" "ok r"
    for k c l s
    using that by (auto simp: performAnalysis_def Let_def dest: envelope_content_error)
  have ta: "try_analysis w k c l provider apiKey s
      = (fst (performAnalysis w k c l provider apiKey s), Some x)"
    if "snd (performAnalysis w k c l provider apiKey s) = Inl x" for x k c l s
    using that
      try_analysis_dispatch_error [of w k c l provider apiKey s
        "fst (performAnalysis w k c l provider apiKey s)" x]
    by (cases "performAnalysis w k c l provider apiKey s") simp
  have tu: "try_analysis w k c l provider apiKey s
      = (fst (performAnalysis w k c l provider apiKey s), Some TypeError)"
    if "snd (performAnalysis w k c l provider apiKey s) = Inr \<lparr>responseText = None, sources = None\<rparr>"
    for k c l s
    using that
      try_analysis_undefined_text [of w k c l provider apiKey s
        "fst (performAnalysis w k c l provider apiKey s)" None]
    by (cases "performAnalysis w k c l provider apiKey s") simp
  have partA: "(JSON_parse (bodyText r) = Inl e \<longrightarrow>
         snd (performAnalysis w keyword country language provider apiKey st) = Inl e)
      \<and> (JSON_parse (bodyText r) = Inr data \<and> envelope_content data = Inl e \<longrightarrow>
         e = TypeError
         \<and> snd (performAnalysis w keyword country language provider apiKey st) = Inl e)
      \<and> (JSON_parse (bodyText r) = Inr data \<and> envelope_content data = Inr None \<longrightarrow>
         snd (performAnalysis w keyword country language provider apiKey st)
           = Inr \<lparr>responseText = None, sources = None\<rparr>
         \<and> snd (try_analysis w keyword country language provider apiKey st) = Some TypeError)"
    if "provider \<noteq> GoogleAI"
      "fetch w (fetch_request provider apiKey (createPrompt keyword country language False))
        = FetchResponse r" "ok r"
    using first [OF that] tu [of keyword country language st] by auto
  have partB: "resultsContainer (submit w iv cv lv st) = ErrorMessage MsgAnalysisFailed
        \<and> searchVolumeChart (submit w iv cv lv st) = searchVolumeChart st
        \<and> competitionChart (submit w iv cv lv st) = competitionChart st
        \<and> calls (submit w iv cv lv st) =
            calls st @ [Fetch (fetch_request provider apiKey
                                 (createPrompt (trim iv) (trim cv) (trim lv) False))]"
    if cfg: "currentProvider st = Some provider" "currentApiKey st = Some apiKey" "apiKey \<noteq> []"
      "trim iv \<noteq> []"
      and net: "provider \<noteq> GoogleAI"
      "fetch w (fetch_request provider apiKey (createPrompt (trim iv) (trim cv) (trim lv) False))
           = FetchResponse r" "ok r"
      and bad: "JSON_parse (bodyText r) = Inl e
           \<or> JSON_parse (bodyText r) = Inr data
              \<and> (envelope_content data = Inl e \<or> envelope_content data = Inr None)"
  proof -
    let ?st1 = "(setLoading True st)\<lparr>resultsContainer := Loader\<rparr>"
    let ?pa = "performAnalysis w (trim iv) (trim cv) (trim lv) provider apiKey ?st1"
    from first [OF net, of ?st1] bad ta [of "trim iv" "trim cv" "trim lv" ?st1]
      tu [of "trim iv" "trim cv" "trim lv" ?st1]
    obtain x where "try_analysis w (trim iv) (trim cv) (trim lv) provider apiKey ?st1
        = (fst ?pa, Some x)"
      by blast
    from submit_catch(1) [OF cfg this] net(1) show ?thesis
      by (simp add: setLoading_def renderError_def performAnalysis_state issue_def)
  qed
  show ?thesis
    using partA partB by blast
qed

text \<open>The bodies \<open>{"choices":[{"message":{}}]}\<close>, \<open>oops\<close> and \<open>{}\<close>, for OpenAI.\<close>

theorem envelope_failures_witness:
  "OpenAI \<noteq> GoogleAI \<and> ok (http_ok no_content_reply)
   \<and> envelope_content (JObj [(js ''choices'', JArr [JObj [(js ''message'', JObj [])]])]) = Inr None
   \<and> snd (try_analysis (answering (http_ok no_content_reply) no_answer) (js ''seo'') [] [] OpenAI
             (js ''k'') fresh) = Some TypeError
   \<and> JSON_parse (js ''oops'') = Inl SyntaxError
   \<and> snd (performAnalysis (answering (http_ok (js ''oops'')) no_answer) (js ''seo'') [] [] OpenAI
            (js ''k'') fresh) = Inl SyntaxError
   \<and> JSON_parse (js ''{}'') = Inr (JObj [])
   \<and> envelope_content (JObj []) = Inl TypeError
   \<and> snd (performAnalysis (answering (http_ok (js ''{}'')) no_answer) (js ''seo'') [] [] OpenAI
            (js ''k'') fresh) = Inl TypeError
   \<and> trim (js ''seo'') \<noteq> []
   \<and> resultsContainer
        (submit (answering (http_ok no_content_reply) no_answer) (js ''seo'') [] []
           (setupApplication (answering (http_ok no_content_reply) no_answer) OpenAI (js ''k'') fresh))
       = ErrorMessage MsgAnalysisFailed"
proof -
  let ?w = "answering (http_ok no_content_reply) no_answer"
  let ?st = "setupApplication ?w OpenAI (js ''k'') fresh"
  let ?data = "JObj [(js ''choices'', JArr [JObj [(js ''message'', JObj [])]])]"
  have cfg: "currentProvider ?st = Some OpenAI" "currentApiKey ?st = Some (js ''k'')"
    "js ''k'' \<noteq> []" "trim (js ''seo'') \<noteq> []"
    by (simp_all add: setup_defs trim_def is_js_space_def js_def)
  have net: "fetch (answering (http_ok b) no_answer) q = FetchResponse (http_ok b)"
    "ok (http_ok b)" "bodyText (http_ok b) = b" for q b
    by (simp_all add: answering_def ok_def http_ok_def)
  have bad: "JSON_parse (js ''oops'') = Inl SyntaxError" "JSON_parse (js ''{}'') = Inr (JObj [])"
    "envelope_content (JObj []) = Inl TypeError"
    by (simp_all add: parse_defs envelope_content_def lookup_def)
  from envelope_failures
      [where provider = OpenAI and w = ?w and apiKey = "js ''k''" and keyword = "js ''seo''"
        and country = "[]" and language = "[]" and r = "http_ok no_content_reply"
        and st = fresh and data = ?data]
    envelope_failures
      [where provider = OpenAI and w = ?w and apiKey = "js ''k''" and r = "http_ok no_content_reply"
        and st = ?st and data = ?data and iv = "js ''seo''" and cv = "[]" and lv = "[]"]
    envelope_failures
      [where provider = OpenAI and w = "answering (http_ok (js ''oops'')) no_answer"
        and apiKey = "js ''k''" and keyword = "js ''seo''"
        and country = "[]" and language = "[]" and r = "http_ok (js ''oops'')"
        and st = fresh and e = SyntaxError]
    envelope_failures
      [where provider = OpenAI and w = "answering (http_ok (js ''{}'')) no_answer"
        and apiKey = "js ''k''" and keyword = "js ''seo''"
        and country = "[]" and language = "[]" and r = "http_ok (js ''{}'')"
        and st = fresh and e = TypeError and data = "JObj []"]
    cfg net bad parse_no_content_reply envelope_no_content
  show ?thesis by simp
qed

text \<open>
  C10 as stated fails: a body with the envelope but without \<open>content\<close> does not make
  \<open>performAnalysis\<close> throw; it returns.
\<close>

theorem missing_content_counterexample:
  "ok (http_ok no_content_reply)
   \<and> snd (performAnalysis (answering (http_ok no_content_reply) no_answer) (js ''seo'') [] [] OpenAI
            (js ''k'') fresh) = Inr \<lparr>responseText = None, sources = None\<rparr>"
  by (simp add: performAnalysis_def Let_def answering_def ok_def http_ok_def
      parse_no_content_reply envelope_no_content)






















end
